theory Spec2Isabelle
  imports Main
begin

section \<open>The configuration endpoint of backend/main.py\<close>

text \<open>
  The module defines one route handler:
  \<^verbatim>\<open>
  @app.get("/config")
  def get_config():
      return {
          "COSMOS_DB_ENDPOINT": os.getenv("COSMOS_DB_ENDPOINT", "NOT_SET"),
          "AIDIAGEXPERT_ENDPOINT": os.getenv("AIDIAGEXPERT_ENDPOINT", "NOT_SET"),
          "AIDIAGEXPERT_KEY": os.getenv("AIDIAGEXPERT_KEY", "NOT_SET"),
          "AZURE_STORAGE_CONNECTION_STRING_1": os.getenv("AZURE_STORAGE_CONNECTION_STRING_1", "NOT_SET")
      }
  \<close>
  The handler reads process-wide state and, like any Python call, could raise. Both are
  explicit in the embedding: a computation takes the process state and returns either an
  error or a value, together with the state it leaves behind.
\<close>

subsection \<open>Process state, errors, computations\<close>

text \<open>
  The process state holds \<open>os.environ\<close>, a mapping from variable names to values. The
  record is extensible: whatever else the process holds lives in the extension, so a
  statement about an arbitrary \<open>'z process_scheme\<close> covers the rest of the program state.

  Names and values are held as the operating system has them, as byte strings (what
  \<open>os.environ\<close> stores on POSIX). A Python \<open>str\<close> read from the environment is held by
  these bytes, its image under \<open>os.fsencode\<close>: \<open>os.environ\<close> decodes with UTF-8 and the
  \<open>surrogateescape\<close> handler, which turns every byte that is not part of well-formed
  UTF-8 into a lone surrogate and loses nothing. The literals of the source are ASCII and
  are their own bytes.
\<close>

record process =
  environ :: "string \<rightharpoonup> string"

datatype error = KeyError string | UnicodeEncodeError

type_synonym ('z, 'a) py = "'z process_scheme \<Rightarrow> (error + 'a) \<times> 'z process_scheme"

definition return_py :: "'a \<Rightarrow> ('z, 'a) py" where
  "return_py x = (\<lambda>s. (Inr x, s))"

text \<open>Sequencing: an error raised by the first computation skips the second.\<close>

definition bind_py :: "('z, 'a) py \<Rightarrow> ('a \<Rightarrow> ('z, 'b) py) \<Rightarrow> ('z, 'b) py" where
  "bind_py m f = (\<lambda>s. case m s of (Inl e, s') \<Rightarrow> (Inl e, s') | (Inr x, s') \<Rightarrow> f x s')"

subsection \<open>Dictionaries\<close>

text \<open>
  A Python dictionary keeps its keys in insertion order, so it is an association list.
  Storing under a key that is already there replaces the value in place; a new key goes
  to the end. A dictionary display \<open>{k1: v1, ..., kn: vn}\<close> stores its items from left
  to right into an empty dictionary.
\<close>

type_synonym dict = "(string \<times> string) list"

primrec dict_setitem :: "string \<Rightarrow> string \<Rightarrow> dict \<Rightarrow> dict" where
  "dict_setitem k v [] = [(k, v)]"
| "dict_setitem k v (p # ps) = (if fst p = k then (k, v) # ps else p # dict_setitem k v ps)"

definition dict_display :: "(string \<times> string) list \<Rightarrow> dict" where
  "dict_display items = foldl (\<lambda>d (k, v). dict_setitem k v d) [] items"


definition dict_keys :: "dict \<Rightarrow> string list" where
  "dict_keys d = map fst d"

subsection \<open>The environment lookup\<close>

text \<open>
  \<open>os.environ[key]\<close> raises KeyError when the variable is absent.
  \<open>os.getenv(key, default)\<close> is \<open>os.environ.get(key, default)\<close>: it tries
  \<open>os.environ[key]\<close> and returns \<open>default\<close> when that raises KeyError; any other
  error would pass through. Neither writes to the process state.
\<close>

definition environ_getitem :: "string \<Rightarrow> ('z, string) py" where
  "environ_getitem key =
     (\<lambda>s. case environ s key of None \<Rightarrow> (Inl (KeyError key), s) | Some v \<Rightarrow> (Inr v, s))"

definition getenv :: "string \<Rightarrow> string \<Rightarrow> ('z, string) py" where
  "getenv key dflt =
     (\<lambda>s. case environ_getitem key s of
            (Inl e, s') \<Rightarrow>
              (case e of KeyError _ \<Rightarrow> (Inr dflt, s') | UnicodeEncodeError \<Rightarrow> (Inl e, s'))
          | (Inr v, s') \<Rightarrow> (Inr v, s'))"

subsection \<open>The handler\<close>

definition get_config :: "('z, dict) py" where
  "get_config =
     bind_py (getenv ''COSMOS_DB_ENDPOINT'' ''NOT_SET'') (\<lambda>v1.
     bind_py (getenv ''AIDIAGEXPERT_ENDPOINT'' ''NOT_SET'') (\<lambda>v2.
     bind_py (getenv ''AIDIAGEXPERT_KEY'' ''NOT_SET'') (\<lambda>v3.
     bind_py (getenv ''AZURE_STORAGE_CONNECTION_STRING_1'' ''NOT_SET'') (\<lambda>v4.
     return_py (dict_display
       [(''COSMOS_DB_ENDPOINT'', v1),
        (''AIDIAGEXPERT_ENDPOINT'', v2),
        (''AIDIAGEXPERT_KEY'', v3),
        (''AZURE_STORAGE_CONNECTION_STRING_1'', v4)])))))"

text \<open>
  The route: \<open>get_config\<close> is registered for GET /config and declares no parameters, so
  the framework calls it with no argument whatever the request holds.
\<close>

definition config_route :: "'req \<Rightarrow> ('z, dict) py" where
  "config_route req = get_config"

text \<open>
  The framework turns the returned dictionary into the response body. The serialiser is
  not part of this module; it is a parameter \<open>render\<close>, a function of the returned
  dictionary alone.
\<close>

definition response_body :: "(dict \<Rightarrow> 'body) \<Rightarrow> 'req \<Rightarrow> 'z process_scheme \<Rightarrow> error + 'body" where
  "response_body render req s = map_sum id render (fst (config_route req s))"

subsection \<open>Well-formed UTF-8\<close>







subsection \<open>The JSON encoder\<close>







subsection \<open>The response of the framework\<close>

text \<open>
  The route is declared with \<open>@app.get("/config")\<close> and nothing else, so the framework
  answers with its default response class and status: the returned dictionary goes into
  a \<open>JSONResponse\<close> with status 200 and media type \<open>application/json\<close>, whose body is
  \<open>json.dumps(content, ensure_ascii=False, allow_nan=False, indent=None,
  separators=(",", ":")).encode("utf-8")\<close>. The conversion that the framework applies to
  the returned value before that leaves a dictionary of strings as it is. An exception
  that escapes the handler or the construction of the response is answered by the server
  with status 500 and the plain text \<open>Internal Server Error\<close>.
\<close>

record response =
  status_code :: nat
  content_type :: string
  body :: string






subsection \<open>JSON texts\<close>

text \<open>
  The grammar of RFC 8259 as a recogniser on bytes. Each function takes the input at the
  start of a construct and returns what follows the construct, or \<open>None\<close>. Nesting is
  bounded by a fuel argument; a text is checked with more fuel than it has bytes to
  nest with. A JSON text is in addition well-formed UTF-8.
\<close>

definition ws_char :: "char \<Rightarrow> bool" where
  "ws_char c \<longleftrightarrow> c = CHR 0x20 \<or> c = CHR 0x09 \<or> c = CHR 0x0A \<or> c = CHR 0x0D"

definition skip_ws :: "string \<Rightarrow> string" where
  "skip_ws = dropWhile ws_char"

definition is_digit :: "char \<Rightarrow> bool" where
  "is_digit c \<longleftrightarrow> c \<in> set ''0123456789''"

definition is_hex :: "char \<Rightarrow> bool" where
  "is_hex c \<longleftrightarrow> c \<in> set ''0123456789abcdef'' \<or> c \<in> set ''ABCDEF''"

text \<open>The characters of a string after its opening quote, up to the closing quote.\<close>

datatype string_state = Plain | Escaped | Hex nat

fun json_chars :: "string_state \<Rightarrow> string \<Rightarrow> string option" where
  "json_chars q [] = None"
| "json_chars Plain (c # cs) =
     (let n = (of_char c :: nat) in
      if n = 0x22 then Some cs
      else if n = 0x5C then json_chars Escaped cs
      else if n < 0x20 then None
      else json_chars Plain cs)"
| "json_chars Escaped (c # cs) =
     (if c \<in> set [CHR 0x22, CHR 0x5C, CHR ''/'', CHR ''b'', CHR ''f'', CHR ''n'', CHR ''r'', CHR ''t'']
      then json_chars Plain cs
      else if c = CHR ''u'' then json_chars (Hex 3) cs
      else None)"
| "json_chars (Hex n) (c # cs) =
     (if is_hex c then (case n of 0 \<Rightarrow> json_chars Plain cs | Suc m \<Rightarrow> json_chars (Hex m) cs)
      else None)"

text \<open>Numbers: an optional minus, an integer part, an optional fraction and exponent.\<close>

definition json_int :: "string \<Rightarrow> string option" where
  "json_int x =
     (case x of
        [] \<Rightarrow> None
      | c # r \<Rightarrow>
          if c = CHR ''0'' then Some r
          else if is_digit c then Some (dropWhile is_digit r)
          else None)"

definition json_digits :: "string \<Rightarrow> string option" where
  "json_digits x =
     (case x of
        [] \<Rightarrow> None
      | c # r \<Rightarrow> if is_digit c then Some (dropWhile is_digit r) else None)"

definition json_frac :: "string \<Rightarrow> string option" where
  "json_frac x =
     (case x of
        [] \<Rightarrow> Some x
      | c # r \<Rightarrow> if c = CHR ''.'' then json_digits r else Some x)"

definition json_exp :: "string \<Rightarrow> string option" where
  "json_exp x =
     (case x of
        [] \<Rightarrow> Some x
      | c # r \<Rightarrow>
          if c = CHR ''e'' \<or> c = CHR ''E'' then
            (case r of
               [] \<Rightarrow> None
             | g # t \<Rightarrow> if g = CHR ''+'' \<or> g = CHR ''-'' then json_digits t else json_digits r)
          else Some x)"

definition json_number :: "string \<Rightarrow> string option" where
  "json_number x =
     (case json_int (case x of [] \<Rightarrow> x | c # r \<Rightarrow> if c = CHR ''-'' then r else x) of
        None \<Rightarrow> None
      | Some r \<Rightarrow> (case json_frac r of None \<Rightarrow> None | Some r' \<Rightarrow> json_exp r'))"

definition json_scalar :: "string \<Rightarrow> string option" where
  "json_scalar x =
     (if take 4 x = ''true'' then Some (drop 4 x)
      else if take 5 x = ''false'' then Some (drop 5 x)
      else if take 4 x = ''null'' then Some (drop 4 x)
      else json_number x)"

fun json_value :: "nat \<Rightarrow> string \<Rightarrow> string option"
  and json_elements :: "nat \<Rightarrow> string \<Rightarrow> string option"
  and json_members :: "nat \<Rightarrow> string \<Rightarrow> string option" where
  "json_value 0 x = None"
| "json_value (Suc n) x =
     (case x of
        [] \<Rightarrow> None
      | c # r \<Rightarrow>
          if c = CHR ''{'' then
            (case skip_ws r of
               [] \<Rightarrow> None
             | c' # r' \<Rightarrow> if c' = CHR ''}'' then Some r' else json_members n (c' # r'))
          else if c = CHR ''['' then
            (case skip_ws r of
               [] \<Rightarrow> None
             | c' # r' \<Rightarrow> if c' = CHR '']'' then Some r' else json_elements n (c' # r'))
          else if c = CHR 0x22 then json_chars Plain r
          else json_scalar x)"
| "json_elements 0 x = None"
| "json_elements (Suc n) x =
     (case json_value n x of
        None \<Rightarrow> None
      | Some r \<Rightarrow>
          (case skip_ws r of
             [] \<Rightarrow> None
           | c # r' \<Rightarrow>
               if c = CHR '','' then json_elements n (skip_ws r')
               else if c = CHR '']'' then Some r'
               else None))"
| "json_members 0 x = None"
| "json_members (Suc n) x =
     (case x of
        [] \<Rightarrow> None
      | c # r \<Rightarrow>
          if c \<noteq> CHR 0x22 then None
          else
            (case json_chars Plain r of
               None \<Rightarrow> None
             | Some r1 \<Rightarrow>
                 (case skip_ws r1 of
                    [] \<Rightarrow> None
                  | c1 # r2 \<Rightarrow>
                      if c1 \<noteq> CHR '':'' then None
                      else
                        (case json_value n (skip_ws r2) of
                           None \<Rightarrow> None
                         | Some r3 \<Rightarrow>
                             (case skip_ws r3 of
                                [] \<Rightarrow> None
                              | c2 # r4 \<Rightarrow>
                                  if c2 = CHR '','' then json_members n (skip_ws r4)
                                  else if c2 = CHR ''}'' then Some r4
                                  else None)))))"



subsection \<open>Vocabulary of the statements\<close>

text \<open>The four keys of the handler, in the order in which the source lists them.\<close>

definition config_keys :: "string list" where
  "config_keys =
     [''COSMOS_DB_ENDPOINT'', ''AIDIAGEXPERT_ENDPOINT'', ''AIDIAGEXPERT_KEY'',
      ''AZURE_STORAGE_CONNECTION_STRING_1'']"

text \<open>Setting and unsetting one variable of the process environment.\<close>

definition setenv :: "string \<Rightarrow> string \<Rightarrow> 'z process_scheme \<Rightarrow> 'z process_scheme" where
  "setenv k v s = s\<lparr>environ := (environ s)(k \<mapsto> v)\<rparr>"

definition unsetenv :: "string \<Rightarrow> 'z process_scheme \<Rightarrow> 'z process_scheme" where
  "unsetenv k s = s\<lparr>environ := (environ s)(k := None)\<rparr>"

text \<open>What a lookup with the default \<open>NOT_SET\<close> yields in a given state.\<close>

definition setting :: "'z process_scheme \<Rightarrow> string \<Rightarrow> string" where
  "setting s k = (case environ s k of None \<Rightarrow> ''NOT_SET'' | Some v \<Rightarrow> v)"


section \<open>Running the handler\<close>

lemma getenv_run:
  "getenv key dflt s = (Inr (case environ s key of None \<Rightarrow> dflt | Some v \<Rightarrow> v), s)"
  by (simp add: getenv_def environ_getitem_def split: option.split)

lemma bind_py_Inr: "m s = (Inr x, s') \<Longrightarrow> bind_py m f s = f x s'"
  by (simp add: bind_py_def)

lemma dict_display_four:
  "dict_display
     [(''COSMOS_DB_ENDPOINT'', a), (''AIDIAGEXPERT_ENDPOINT'', b),
      (''AIDIAGEXPERT_KEY'', c), (''AZURE_STORAGE_CONNECTION_STRING_1'', d)] =
   [(''COSMOS_DB_ENDPOINT'', a), (''AIDIAGEXPERT_ENDPOINT'', b),
    (''AIDIAGEXPERT_KEY'', c), (''AZURE_STORAGE_CONNECTION_STRING_1'', d)]"
  by (simp add: dict_display_def)

lemma get_config_run:
  "get_config s =
     (Inr [(''COSMOS_DB_ENDPOINT'', setting s ''COSMOS_DB_ENDPOINT''),
           (''AIDIAGEXPERT_ENDPOINT'', setting s ''AIDIAGEXPERT_ENDPOINT''),
           (''AIDIAGEXPERT_KEY'', setting s ''AIDIAGEXPERT_KEY''),
           (''AZURE_STORAGE_CONNECTION_STRING_1'', setting s ''AZURE_STORAGE_CONNECTION_STRING_1'')],
      s)"
  unfolding get_config_def
  by (simp add: bind_py_Inr [OF getenv_run] return_py_def dict_display_four setting_def)

lemma get_config_result:
  "fst (get_config s) =
     Inr [(''COSMOS_DB_ENDPOINT'', setting s ''COSMOS_DB_ENDPOINT''),
          (''AIDIAGEXPERT_ENDPOINT'', setting s ''AIDIAGEXPERT_ENDPOINT''),
          (''AIDIAGEXPERT_KEY'', setting s ''AIDIAGEXPERT_KEY''),
          (''AZURE_STORAGE_CONNECTION_STRING_1'', setting s ''AZURE_STORAGE_CONNECTION_STRING_1'')]"
  by (simp add: get_config_run)

lemma get_config_state: "snd (get_config s) = s"
  by (simp add: get_config_run)









lemma setting_sentinel: "setting (setenv k ''NOT_SET'' s) k' = setting (unsetenv k s) k'"
  by (simp add: setting_def setenv_def unsetenv_def)


text \<open>The result is a function of the four lookups alone.\<close>

lemma get_config_agree:
  assumes "\<forall>k\<in>set config_keys. environ s1 k = environ s2 k"
  shows "fst (get_config s1) = fst (get_config s2)"
proof -
  from assms have
    "environ s1 ''COSMOS_DB_ENDPOINT'' = environ s2 ''COSMOS_DB_ENDPOINT''"
    "environ s1 ''AIDIAGEXPERT_ENDPOINT'' = environ s2 ''AIDIAGEXPERT_ENDPOINT''"
    "environ s1 ''AIDIAGEXPERT_KEY'' = environ s2 ''AIDIAGEXPERT_KEY''"
    "environ s1 ''AZURE_STORAGE_CONNECTION_STRING_1'' =
       environ s2 ''AZURE_STORAGE_CONNECTION_STRING_1''"
    by (simp_all add: config_keys_def)
  then show ?thesis
    by (simp add: get_config_result setting_def)
qed

section \<open>The encoder and the grammar\<close>

subsection \<open>The UTF-8 automaton on encoder output\<close>























subsection \<open>Encoder output is a JSON text\<close>

















subsection \<open>The response of the route\<close>






section \<open>Properties of GET /config\<close>






text \<open>
  C4. Two calls of GET /config whose environments agree on the four keys, in presence
  and in value, give the same response body, whatever the two requests hold and whatever
  else the two processes hold; and a second call in the state the first one leaves gives
  the body of the first. The serialiser is any function of the returned dictionary.
\<close>

theorem response_body_depends_on_four_keys_only:
  assumes "\<forall>k\<in>set config_keys. environ s1 k = environ s2 k"
  shows "response_body render req1 s1 = response_body render req2 s2 \<and>
         response_body render req1 (snd (config_route req1 s1)) = response_body render req1 s1"
  using get_config_agree [OF assms]
  by (simp add: response_body_def config_route_def get_config_state)

theorem response_body_depends_on_four_keys_only_witness:
  "response_body dict_keys ''a'' \<lparr>environ = [''COSMOS_DB_ENDPOINT'' \<mapsto> ''x'']\<rparr> =
   response_body dict_keys ''b''
     \<lparr>environ = [''COSMOS_DB_ENDPOINT'' \<mapsto> ''x'', ''HOME'' \<mapsto> ''/root'']\<rparr>"
proof -
  have h: "\<forall>k\<in>set config_keys.
      environ \<lparr>environ = [''COSMOS_DB_ENDPOINT'' \<mapsto> ''x'']\<rparr> k =
      environ \<lparr>environ = [''COSMOS_DB_ENDPOINT'' \<mapsto> ''x'', ''HOME'' \<mapsto> ''/root'']\<rparr> k"
    by (simp add: config_keys_def)
  from response_body_depends_on_four_keys_only [OF h, of dict_keys "''a''" "''b''"]
  show ?thesis
    by (rule conjunct1)
qed









text \<open>
  C8. A call has no effect on the process: each lookup, the handler and the route return
  the state they were given, the environment and everything else it holds.
\<close>

theorem get_config_leaves_process_unchanged:
  "snd (getenv key dflt s) = s \<and> snd (get_config s) = s \<and> snd (config_route req s) = s"
  by (simp add: getenv_run get_config_state config_route_def)



text \<open>
  C10. For each of the four keys, a process whose variable is set to the string
  \<open>NOT_SET\<close> and a process where that variable is unset, the two agreeing otherwise,
  get the same returned dictionary and the same response body.
\<close>

theorem get_config_sentinel_indistinguishable:
  assumes "k \<in> set config_keys"
  shows "fst (get_config (setenv k ''NOT_SET'' s)) = fst (get_config (unsetenv k s)) \<and>
         response_body render req (setenv k ''NOT_SET'' s) = response_body render req (unsetenv k s)"
  by (simp add: response_body_def config_route_def get_config_result setting_sentinel)

theorem get_config_sentinel_indistinguishable_witness:
  "''AIDIAGEXPERT_KEY'' \<in> set config_keys \<and>
   fst (get_config (setenv ''AIDIAGEXPERT_KEY'' ''NOT_SET'' \<lparr>environ = Map.empty\<rparr>)) =
   fst (get_config (unsetenv ''AIDIAGEXPERT_KEY'' \<lparr>environ = Map.empty\<rparr>))"
proof -
  have h: "''AIDIAGEXPERT_KEY'' \<in> set config_keys"
    by (simp add: config_keys_def)
  from get_config_sentinel_indistinguishable [OF h, of "\<lparr>environ = Map.empty\<rparr>" dict_keys "''r''"]
  have "fst (get_config (setenv ''AIDIAGEXPERT_KEY'' ''NOT_SET'' \<lparr>environ = Map.empty\<rparr>)) =
        fst (get_config (unsetenv ''AIDIAGEXPERT_KEY'' \<lparr>environ = Map.empty\<rparr>))"
    by (rule conjunct1)
  with h show ?thesis
    by (intro conjI)
qed

end
